theory Spec2Isabelle
  imports Main
begin

section \<open>Data model of the club service\<close>

text \<open>
  The service in \<^verbatim>\<open>src/server/services/club.service.ts\<close> reads and writes a relational
  store through an ORM. The tables it touches are modelled as lists of rows, ids as
  \<^typ>\<open>int\<close> (the source compares against the sentinel \<open>-1\<close>), an optional argument as an
  \<^typ>\<open>'a option\<close>, and every \<^verbatim>\<open>throw\<close> as a value of \<open>error\<close>.
\<close>

datatype error = AuthorizationError | BadRequestError | NotFoundError | TypeError

text \<open>
  The enumerations come from the ORM's schema and the request schemas, which are not
  among the sources: each lists the members the service or the specification names
  (\<open>Public\<close> and \<open>Private\<close>; the three admin permissions the service tests; the
  resource types; the accessor types \<open>Club\<close> and \<open>ClubTier\<close> of the service and the
  direct user grant of the specification).
\<close>

datatype Availability = Public | Private

datatype ClubAdminPermission = ManageClub | ManageTiers | ManageResources

datatype SupportedClubEntities = ModelVersion | Article | Post

datatype AccessorType = Club | ClubTier | User

record ClubRow =
  club_id :: int
  club_userId :: int

record ClubAdminRow =
  admin_userId :: int
  admin_clubId :: int
  admin_permissions :: "ClubAdminPermission list"

record ClubTierRow =
  tier_id :: int
  tier_clubId :: int
  tier_name :: string
  tier_unitAmount :: int
  tier_unlisted :: bool
  tier_joinable :: bool

record ClubMembershipRow =
  membership_userId :: int
  membership_clubTierId :: int

record EntityAccessRow =
  accessToId :: int
  accessToType :: SupportedClubEntities
  accessorId :: int
  accessorType :: AccessorType
  addedById :: int

text \<open>
  The store. \<open>availability\<close> is the denormalised flag kept on each resource and
  \<open>entityOwner\<close> the owner of each resource; both live in tables of the resource types
  that the club service reaches only through \<^verbatim>\<open>common.service\<close>. \<open>buzzBalance\<close> is the
  ledger's balance of a club account (\<open>None\<close>: no account, or no balance on it).
  \<open>clubTierSeq\<close> is the last id the sequence of the tier table has given out.
\<close>

record db =
  club :: "ClubRow list"
  clubAdmin :: "ClubAdminRow list"
  clubTier :: "ClubTierRow list"
  clubMembership :: "ClubMembershipRow list"
  entityAccess :: "EntityAccessRow list"
  availability :: "SupportedClubEntities \<times> int \<Rightarrow> Availability"
  entityOwner :: "SupportedClubEntities \<times> int \<Rightarrow> int option"
  buzzBalance :: "int \<Rightarrow> int option"
  clubTierSeq :: int

section \<open>Collaborators outside the service file\<close>

text \<open>
  Modelled from the spec: \<^verbatim>\<open>entityOwnership\<close> of \<^verbatim>\<open>common.service\<close> is not among the
  sources. Section 4.1: for a resource, ownership is resolved externally and returned as
  \<open>{isOwner}\<close>; the service destructures the first element of the answer and reads
  \<open>isOwner\<close> of it.
\<close>

definition entityOwnership :: "db \<Rightarrow> int \<Rightarrow> SupportedClubEntities \<times> int \<Rightarrow> bool" where
  "entityOwnership d userId e = (entityOwner d e = Some userId)"

text \<open>
  Modelled from the spec: \<^verbatim>\<open>entityAvailabilityUpdate\<close> of \<^verbatim>\<open>common.service\<close> is not among
  the sources. Section 6: a single external call
  \<open>setAvailability(entityType, entityIds, Public|Private)\<close> that writes the flag of each
  listed resource.
\<close>

definition entityAvailabilityUpdate ::
  "SupportedClubEntities \<Rightarrow> int list \<Rightarrow> Availability \<Rightarrow> db \<Rightarrow> db" where
  "entityAvailabilityUpdate entityType entityIds a d =
     d\<lparr>availability :=
         (\<lambda>e. if fst e = entityType \<and> snd e \<in> set entityIds then a else availability d e)\<rparr>"

section \<open>userContributingClubs\<close>

record ContributingClub =
  cc_id :: int
  cc_userId :: int
  cc_admin :: "ClubAdminRow option"

definition adminsOf :: "db \<Rightarrow> int \<Rightarrow> int \<Rightarrow> ClubAdminRow list" where
  "adminsOf d userId clubId =
     filter (\<lambda>a. admin_clubId a = clubId \<and> admin_userId a = userId) (clubAdmin d)"

text \<open>
  The clubs the user owns or has an admin row of, restricted to \<open>clubIds\<close> when the
  argument is given; \<open>admin\<close> is \<^verbatim>\<open>club.admins[0]\<close>, undefined when the user has no admin
  row.
\<close>

definition userContributingClubs :: "db \<Rightarrow> int \<Rightarrow> int list option \<Rightarrow> ContributingClub list" where
  "userContributingClubs d userId clubIds =
     map (\<lambda>c. \<lparr>cc_id = club_id c, cc_userId = club_userId c,
               cc_admin = (case adminsOf d userId (club_id c) of [] \<Rightarrow> None | a # _ \<Rightarrow> Some a)\<rparr>)
       (filter (\<lambda>c. (case clubIds of None \<Rightarrow> True | Some ids \<Rightarrow> club_id c \<in> set ids)
                   \<and> (club_userId c = userId \<or> adminsOf d userId (club_id c) \<noteq> []))
          (club d))"

text \<open>\<^verbatim>\<open>const [x] = xs\<close>: the first element, undefined on the empty array.\<close>

definition first :: "'a list \<Rightarrow> 'a option" where
  "first xs = (case xs of [] \<Rightarrow> None | x # _ \<Rightarrow> Some x)"

section \<open>Grants: the \<open>where\<close> clause shared by the writers\<close>

text \<open>
  Every \<^verbatim>\<open>entityAccess.deleteMany\<close> of the service has the same shape: rows of the
  resource whose accessor is a club of one id list or a tier of another.
\<close>

definition accessWhere ::
  "SupportedClubEntities \<Rightarrow> int \<Rightarrow> int list \<Rightarrow> int list \<Rightarrow> EntityAccessRow \<Rightarrow> bool" where
  "accessWhere entityType entityId cIds tIds r =
     (accessToId r = entityId \<and> accessToType r = entityType \<and>
      ((accessorId r \<in> set cIds \<and> accessorType r = Club) \<or>
       (accessorId r \<in> set tIds \<and> accessorType r = ClubTier)))"

definition deleteManyAccess :: "(EntityAccessRow \<Rightarrow> bool) \<Rightarrow> db \<Rightarrow> db" where
  "deleteManyAccess wh d = d\<lparr>entityAccess := filter (\<lambda>r. \<not> wh r) (entityAccess d)\<rparr>"

definition createManyAccess :: "EntityAccessRow list \<Rightarrow> db \<Rightarrow> db" where
  "createManyAccess rows d = d\<lparr>entityAccess := entityAccess d @ rows\<rparr>"

definition accessOf :: "db \<Rightarrow> SupportedClubEntities \<Rightarrow> int \<Rightarrow> EntityAccessRow list" where
  "accessOf d entityType entityId =
     filter (\<lambda>r. accessToId r = entityId \<and> accessToType r = entityType) (entityAccess d)"

definition accessRow ::
  "SupportedClubEntities \<Rightarrow> int \<Rightarrow> AccessorType \<Rightarrow> int \<Rightarrow> int \<Rightarrow> EntityAccessRow" where
  "accessRow entityType entityId ty userId i =
     \<lparr>accessToId = entityId, accessToType = entityType, accessorId = i,
      accessorType = ty, addedById = userId\<rparr>"

definition tierIdsOfClubs :: "db \<Rightarrow> int list \<Rightarrow> int list" where
  "tierIdsOfClubs d clubIds =
     map tier_id (filter (\<lambda>t. tier_clubId t \<in> set clubIds) (clubTier d))"

section \<open>removeClubResource\<close>

text \<open>
  \<open>canRemoveResource\<close> is a chain of \<^verbatim>\<open>||\<close>, evaluated left to right. Its last operand
  reads \<^verbatim>\<open>userClub.admin\<close> with no optional chaining, so it throws a \<open>TypeError\<close> when
  it is reached with \<open>userClub\<close> undefined.
\<close>

definition canRemoveResource ::
  "bool \<Rightarrow> bool \<Rightarrow> int \<Rightarrow> ContributingClub option \<Rightarrow> error + bool" where
  "canRemoveResource isModerator isOwner userId userClub =
     (if isModerator then Inr True
      else if isOwner then Inr True
      else case userClub of
        None \<Rightarrow> Inl TypeError
      | Some c \<Rightarrow>
          if cc_userId c = userId then Inr True
          else (case cc_admin c of
                  None \<Rightarrow> Inr False
                | Some a \<Rightarrow> Inr (ManageResources \<in> set (admin_permissions a))))"

definition removeClubResource ::
  "int \<Rightarrow> bool \<Rightarrow> SupportedClubEntities \<Rightarrow> int \<Rightarrow> int \<Rightarrow> db \<Rightarrow> error option \<times> db" where
  "removeClubResource userId isModerator entityType entityId clubId d =
     (let userClub = first (userContributingClubs d userId (Some [clubId]));
          isOwner = entityOwnership d userId (entityType, entityId)
      in case canRemoveResource isModerator isOwner userId userClub of
           Inl e \<Rightarrow> (Some e, d)
         | Inr False \<Rightarrow> (Some AuthorizationError, d)
         | Inr True \<Rightarrow>
             (let clubTierIds = tierIdsOfClubs d [clubId];
                  d1 = deleteManyAccess (accessWhere entityType entityId [clubId] clubTierIds) d
              in if accessOf d1 entityType entityId \<noteq> [] then (None, d1)
                 else (None, entityAvailabilityUpdate entityType [entityId] Public d1)))"

section \<open>updateClubResource\<close>

text \<open>
  Replaces the grants of one club on a resource: a club-level grant when no tier is
  named, a tier-level grant for each named tier otherwise. The source never calls
  \<^verbatim>\<open>entityAvailabilityUpdate\<close> here.
\<close>

definition updateClubResource ::
  "int \<Rightarrow> bool \<Rightarrow> SupportedClubEntities \<Rightarrow> int \<Rightarrow> int \<Rightarrow> int list option \<Rightarrow> db
     \<Rightarrow> error option \<times> db" where
  "updateClubResource userId isModerator entityType entityId clubId clubTierIds d =
     (if \<not> isModerator \<and> \<not> entityOwnership d userId (entityType, entityId)
      then (Some AuthorizationError, d)
      else
        let contributingClubs = userContributingClubs d userId (Some [clubId])
        in if \<not> isModerator \<and> find (\<lambda>cc. cc_id cc = clubId) contributingClubs = None
           then (Some AuthorizationError, d)
           else
             let allClubTierIds = tierIdsOfClubs d [clubId];
                 d1 = deleteManyAccess (accessWhere entityType entityId [clubId] allClubTierIds) d;
                 requested = (case clubTierIds of None \<Rightarrow> [] | Some ts \<Rightarrow> ts)
             in if requested = []
                then (None, createManyAccess [accessRow entityType entityId Club userId clubId] d1)
                else (None, createManyAccess
                              (map (accessRow entityType entityId ClubTier userId) requested) d1))"

section \<open>Resource lookup\<close>

record ClubRequirement =
  req_clubId :: int
  req_clubTierIds :: "int list option"

record EntityClubDetails =
  details_entityType :: SupportedClubEntities
  details_entityId :: int
  details_clubs :: "ClubRequirement list"

text \<open>
  The parts of the lookup: the accessor ids of the club-level and of the tier-level
  grants of a resource, the clubs these grants belong to (a club-level grant names its
  club by the accessor id, a tier-level grant through the tier's row), and the granted
  tiers of one club.
\<close>

definition clubGrantIds :: "db \<Rightarrow> SupportedClubEntities \<times> int \<Rightarrow> int list" where
  "clubGrantIds d e =
     map accessorId (filter (\<lambda>r. accessorType r = Club) (accessOf d (fst e) (snd e)))"

definition tierGrantIds :: "db \<Rightarrow> SupportedClubEntities \<times> int \<Rightarrow> int list" where
  "tierGrantIds d e =
     map accessorId (filter (\<lambda>r. accessorType r = ClubTier) (accessOf d (fst e) (snd e)))"

definition gatingClubIds :: "db \<Rightarrow> SupportedClubEntities \<times> int \<Rightarrow> int list" where
  "gatingClubIds d e =
     remdups (clubGrantIds d e @
              map tier_clubId (filter (\<lambda>t. tier_id t \<in> set (tierGrantIds d e)) (clubTier d)))"

definition gatingTierIds :: "db \<Rightarrow> SupportedClubEntities \<times> int \<Rightarrow> int \<Rightarrow> int list" where
  "gatingTierIds d e c =
     filter (\<lambda>i. list_ex (\<lambda>t. tier_id t = i \<and> tier_clubId t = c) (clubTier d))
       (tierGrantIds d e)"

text \<open>
  Modelled from the spec: \<^verbatim>\<open>entityRequiresClub\<close> of \<^verbatim>\<open>common.service\<close> is not among the
  sources. Section 4.4: for a batch of resources, it returns each resource's current
  club ids and, per club, the tier ids gating it, grouped per club. The service passes
  it the resources only, never the principal.
\<close>

definition entityRequiresClub ::
  "db \<Rightarrow> (SupportedClubEntities \<times> int) list \<Rightarrow> EntityClubDetails list" where
  "entityRequiresClub d entities =
     map (\<lambda>e. \<lparr>details_entityType = fst e, details_entityId = snd e,
               details_clubs =
                 map (\<lambda>c. \<lparr>req_clubId = c,
                            req_clubTierIds = (if gatingTierIds d e c = [] then None
                                               else Some (gatingTierIds d e c))\<rparr>)
                   (gatingClubIds d e)\<rparr>)
       entities"

definition getClubDetailsForResource ::
  "db \<Rightarrow> (SupportedClubEntities \<times> int) list \<Rightarrow> EntityClubDetails list" where
  "getClubDetailsForResource d entities = entityRequiresClub d entities"

section \<open>upsertClubResource\<close>

record ClubResourceInput =
  in_clubId :: int
  in_clubTierIds :: "int list option"

text \<open>\<^verbatim>\<open>!c.clubTierIds || !c.clubTierIds.length\<close>: no tier list, or an empty one.\<close>

definition isGeneralAccess :: "ClubResourceInput \<Rightarrow> bool" where
  "isGeneralAccess c = (case in_clubTierIds c of None \<Rightarrow> True | Some ts \<Rightarrow> ts = [])"

definition clubAccessIds :: "ClubResourceInput list \<Rightarrow> int list" where
  "clubAccessIds clubs = map in_clubId (filter isGeneralAccess clubs)"

definition tierAccessIds :: "ClubResourceInput list \<Rightarrow> int list" where
  "tierAccessIds clubs =
     concat (List.map_filter in_clubTierIds (filter (\<lambda>c. \<not> isGeneralAccess c) clubs))"

text \<open>
  The function is modelled with the states it commits, in order. A statement issued on
  \<^verbatim>\<open>dbWrite\<close> outside \<^verbatim>\<open>$transaction\<close> commits by itself; the callback of
  \<^verbatim>\<open>$transaction\<close> commits once, at its end. With an empty club list the source issues
  \<^verbatim>\<open>deleteMany\<close>, \<^verbatim>\<open>findFirst\<close> and the availability update as three separate statements;
  with a non-empty list the delete and the two inserts run on the client \<open>tx\<close> of one
  \<^verbatim>\<open>$transaction\<close>, which is given no \<open>maxWait\<close> or \<open>timeout\<close>. The availability update
  is called in that callback without \<open>tx\<close>, so it is no part of the transaction: it
  commits by itself, on the grants as they were, before the callback returns and the
  transaction commits the new grants.

  The table is a list and an insert appends: a uniqueness constraint of the schema, not
  among the sources, could only turn a successful run of the model into a failed run of
  the code.
\<close>

definition upsertClubResource_commits ::
  "int \<Rightarrow> bool \<Rightarrow> SupportedClubEntities \<Rightarrow> int \<Rightarrow> ClubResourceInput list \<Rightarrow> db
     \<Rightarrow> error option \<times> db list" where
  "upsertClubResource_commits userId isModerator entityType entityId clubs d =
     (if \<not> isModerator \<and> \<not> entityOwnership d userId (entityType, entityId)
      then (Some AuthorizationError, [])
      else
        let clubIds = map in_clubId clubs;
            contributingClubs = userContributingClubs d userId (Some clubIds)
        in if \<not> isModerator \<and>
              list_ex (\<lambda>c. find (\<lambda>cc. cc_id cc = c) contributingClubs = None) clubIds
           then (Some AuthorizationError, [])
           else
             let clubTierIds = (if clubIds = [] then [] else tierIdsOfClubs d clubIds)
             in if clubIds = [] then
                  (case first (getClubDetailsForResource d [(entityType, entityId)]) of
                     None \<Rightarrow> (Some TypeError, [])
                   | Some details \<Rightarrow>
                       let d1 = deleteManyAccess
                                  (accessWhere entityType entityId
                                     (map req_clubId (details_clubs details))
                                     (concat (List.map_filter req_clubTierIds
                                                (details_clubs details)))) d
                       in if accessOf d1 entityType entityId \<noteq> [] then (None, [d1])
                          else (None, [d1, entityAvailabilityUpdate entityType [entityId] Public d1]))
                else
                  let d1 = deleteManyAccess
                             (accessWhere entityType entityId clubIds clubTierIds) d;
                      d2 = createManyAccess
                             (map (accessRow entityType entityId Club userId)
                                (clubAccessIds clubs)) d1;
                      d3 = createManyAccess
                             (map (accessRow entityType entityId ClubTier userId)
                                (tierAccessIds clubs)) d2
                  in (None, [entityAvailabilityUpdate entityType [entityId] Private d,
                             entityAvailabilityUpdate entityType [entityId] Private d3]))"

text \<open>The state a call leaves behind is the last one it committed.\<close>

definition upsertClubResource ::
  "int \<Rightarrow> bool \<Rightarrow> SupportedClubEntities \<Rightarrow> int \<Rightarrow> ClubResourceInput list \<Rightarrow> db
     \<Rightarrow> error option \<times> db" where
  "upsertClubResource userId isModerator entityType entityId clubs d =
     (case upsertClubResource_commits userId isModerator entityType entityId clubs d of
        (e, commits) \<Rightarrow> (e, last (d # commits)))"

section \<open>upsertClubTiers\<close>

record UpsertClubTierInput =
  in_id :: "int option"
  in_name :: string
  in_unitAmount :: int
  in_unlisted :: bool
  in_joinable :: bool

text \<open>
  The permission test of the source: the caller is the owner of the club, or a
  moderator, or holds an admin row of the club with \<open>ManageTiers\<close>. Each optional chain
  on an undefined \<open>userClub\<close> or \<open>admin\<close> yields undefined, which is neither the user's
  id nor true.
\<close>

definition canEditTiers :: "int \<Rightarrow> bool \<Rightarrow> ContributingClub option \<Rightarrow> bool" where
  "canEditTiers userId isModerator userClub =
     ((case userClub of None \<Rightarrow> False | Some c \<Rightarrow> cc_userId c = userId) \<or>
      isModerator \<or>
      (case userClub of
         None \<Rightarrow> False
       | Some c \<Rightarrow> (case cc_admin c of
                      None \<Rightarrow> False
                    | Some a \<Rightarrow> ManageTiers \<in> set (admin_permissions a))))"

text \<open>\<^verbatim>\<open>memberships: { some: {} }\<close>: the tier has at least one membership row.\<close>

definition hasMembers :: "db \<Rightarrow> ClubTierRow \<Rightarrow> bool" where
  "hasMembers d t = list_ex (\<lambda>m. membership_clubTierId m = tier_id t) (clubMembership d)"

definition deletingTierWithMembers :: "db \<Rightarrow> int list \<Rightarrow> ClubTierRow option" where
  "deletingTierWithMembers d deleteTierIds =
     find (\<lambda>t. tier_id t \<in> set deleteTierIds \<and> hasMembers d t) (clubTier d)"

text \<open>
  \<^verbatim>\<open>createMany\<close> with \<^verbatim>\<open>skipDuplicates\<close>: a row without an id takes the next id of the
  sequence, which a delete never gives back; a row that brings its own id leaves the
  sequence alone; a row whose id is already in the table is skipped. The result is the
  table and the sequence. Cover images are not part of the model.
\<close>

definition tierOfInput :: "int \<Rightarrow> int \<Rightarrow> UpsertClubTierInput \<Rightarrow> ClubTierRow" where
  "tierOfInput clubId i x =
     \<lparr>tier_id = i, tier_clubId = clubId, tier_name = in_name x,
      tier_unitAmount = in_unitAmount x, tier_unlisted = in_unlisted x,
      tier_joinable = in_joinable x\<rparr>"

definition insertTier :: "ClubTierRow \<Rightarrow> ClubTierRow list \<Rightarrow> ClubTierRow list" where
  "insertTier t ts = (if tier_id t \<in> set (map tier_id ts) then ts else ts @ [t])"

fun createManyTiers ::
  "int \<Rightarrow> UpsertClubTierInput list \<Rightarrow> ClubTierRow list \<times> int \<Rightarrow> ClubTierRow list \<times> int" where
  "createManyTiers clubId [] st = st"
| "createManyTiers clubId (x # xs) (ts, s) =
     createManyTiers clubId xs
       (case in_id x of
          None \<Rightarrow> (insertTier (tierOfInput clubId (s + 1) x) ts, s + 1)
        | Some i \<Rightarrow> (insertTier (tierOfInput clubId i x) ts, s))"

text \<open>
  \<^verbatim>\<open>clubTier.update\<close> by id: the row keeps its id and its club and takes the other
  fields of the input. An id that names no row makes that update throw; the updates run
  under \<^verbatim>\<open>Promise.all\<close>, so the others are still applied.
\<close>

definition updateTier :: "int \<Rightarrow> UpsertClubTierInput \<Rightarrow> ClubTierRow list \<Rightarrow> ClubTierRow list" where
  "updateTier i x ts =
     map (\<lambda>t. if tier_id t = i then tierOfInput (tier_clubId t) i x else t) ts"

fun updateTiers :: "UpsertClubTierInput list \<Rightarrow> ClubTierRow list \<Rightarrow> bool \<times> ClubTierRow list" where
  "updateTiers [] ts = (True, ts)"
| "updateTiers (x # xs) ts =
     (case in_id x of
        None \<Rightarrow> updateTiers xs ts
      | Some i \<Rightarrow>
          (case updateTiers xs (updateTier i x ts) of
             (ok, ts') \<Rightarrow> (ok \<and> i \<in> set (map tier_id ts), ts')))"

text \<open>
  \<open>toCreate\<close> keeps the inputs with a falsy id (undefined or \<open>0\<close>), \<open>toUpdate\<close> those
  whose id is not undefined. The result is the error thrown, if any, and the store as
  the statements that ran have left it: the permission check and the guard on tiers
  with members both come before the first write.
\<close>

definition upsertClubTiers ::
  "int \<Rightarrow> bool \<Rightarrow> int \<Rightarrow> UpsertClubTierInput list option \<Rightarrow> int list option \<Rightarrow> db
     \<Rightarrow> error option \<times> db" where
  "upsertClubTiers userId isModerator clubId tiers deleteTierIds d =
     (let userClub = first (userContributingClubs d userId (Some [clubId]))
      in if \<not> canEditTiers userId isModerator userClub then (Some BadRequestError, d)
         else
           let toDelete = (case deleteTierIds of None \<Rightarrow> [] | Some ids \<Rightarrow> ids)
           in if toDelete \<noteq> [] \<and> deletingTierWithMembers d toDelete \<noteq> None
              then (Some BadRequestError, d)
              else
                let d1 = (if toDelete = [] then d
                          else d\<lparr>clubTier :=
                                   filter (\<lambda>t. tier_id t \<notin> set toDelete) (clubTier d)\<rparr>);
                    given = (case tiers of None \<Rightarrow> [] | Some ts \<Rightarrow> ts);
                    toCreate = filter (\<lambda>x. in_id x = None \<or> in_id x = Some 0) given;
                    toUpdate = filter (\<lambda>x. in_id x \<noteq> None) given;
                    created = createManyTiers clubId toCreate (clubTier d1, clubTierSeq d1);
                    d2 = d1\<lparr>clubTier := fst created, clubTierSeq := snd created\<rparr>
                in case updateTiers toUpdate (clubTier d2) of
                     (ok, ts') \<Rightarrow>
                       (if ok then None else Some NotFoundError, d2\<lparr>clubTier := ts'\<rparr>))"

section \<open>getClubTiers\<close>

text \<open>A JavaScript number is falsy when it is undefined or \<open>0\<close>.\<close>

definition truthy :: "int option \<Rightarrow> bool" where
  "truthy x = (case x of None \<Rightarrow> False | Some n \<Rightarrow> n \<noteq> 0)"

definition userClubIdsOf :: "db \<Rightarrow> int option \<Rightarrow> int list" where
  "userClubIdsOf d userId =
     (case userId of
        None \<Rightarrow> []
      | Some u \<Rightarrow> if truthy userId then map cc_id (userContributingClubs d u None) else [])"

text \<open>
  \<^verbatim>\<open>isModerator || (userClubIds.includes(clubId ?? -1) &&
     !(clubIds ?? []).some((c) => !userClubIds.includes(c)))\<close>
\<close>

definition canViewAllTiers :: "bool \<Rightarrow> int list \<Rightarrow> int option \<Rightarrow> int list option \<Rightarrow> bool" where
  "canViewAllTiers isModerator userClubIds clubId clubIds =
     (isModerator \<or>
      ((case clubId of None \<Rightarrow> - 1 | Some c \<Rightarrow> c) \<in> set userClubIds \<and>
       \<not> list_ex (\<lambda>c. c \<notin> set userClubIds) (case clubIds of None \<Rightarrow> [] | Some cs \<Rightarrow> cs)))"

text \<open>The filter the query runs with: \<open>(listedOnly, joinableOnly)\<close> after the check.\<close>

definition appliedFilter ::
  "db \<Rightarrow> int option \<Rightarrow> bool \<Rightarrow> int option \<Rightarrow> int list option \<Rightarrow> bool option \<Rightarrow> bool option
     \<Rightarrow> bool option \<times> bool option" where
  "appliedFilter d userId isModerator clubId clubIds listedOnly joinableOnly =
     (if canViewAllTiers isModerator (userClubIdsOf d userId) clubId clubIds
      then (listedOnly, joinableOnly)
      else (Some True, Some True))"

definition inClubIds :: "int list option \<Rightarrow> ClubTierRow \<Rightarrow> bool" where
  "inClubIds clubIds t = (case clubIds of None \<Rightarrow> True | Some cs \<Rightarrow> tier_clubId t \<in> set cs)"

definition tierWhere ::
  "int option \<Rightarrow> int list option \<Rightarrow> bool option \<Rightarrow> bool option \<Rightarrow> int option \<Rightarrow> ClubTierRow
     \<Rightarrow> bool" where
  "tierWhere clubId clubIds listedOnly joinableOnly tierId t =
     ((case clubId of
         Some c \<Rightarrow> if truthy clubId then tier_clubId t = c else inClubIds clubIds t
       | None \<Rightarrow> inClubIds clubIds t) \<and>
      (case listedOnly of None \<Rightarrow> True | Some l \<Rightarrow> tier_unlisted t = (\<not> l)) \<and>
      (case joinableOnly of None \<Rightarrow> True | Some j \<Rightarrow> tier_joinable t = j) \<and>
      (case tierId of None \<Rightarrow> True | Some i \<Rightarrow> if truthy tierId then tier_id t = i else True))"

text \<open>The clubs whose tiers the \<open>where\<close> clause selects.\<close>

definition queriedClubIds :: "int option \<Rightarrow> int list option \<Rightarrow> int list" where
  "queriedClubIds clubId clubIds =
     (case clubId of
        Some c \<Rightarrow> if truthy clubId then [c] else (case clubIds of None \<Rightarrow> [] | Some cs \<Rightarrow> cs)
      | None \<Rightarrow> (case clubIds of None \<Rightarrow> [] | Some cs \<Rightarrow> cs))"

text \<open>
  The result pairs each tier with the count of its membership rows, ordered by
  ascending price (the order among equal prices is the table's).
\<close>

definition getClubTiers ::
  "db \<Rightarrow> int option \<Rightarrow> bool \<Rightarrow> int option \<Rightarrow> int list option \<Rightarrow> bool option \<Rightarrow> bool option
     \<Rightarrow> int option \<Rightarrow> (ClubTierRow \<times> nat) list" where
  "getClubTiers d userId isModerator clubId clubIds listedOnly joinableOnly tierId =
     (if \<not> truthy clubId \<and> (case clubIds of None \<Rightarrow> True | Some cs \<Rightarrow> cs = [])
      then []
      else
        case appliedFilter d userId isModerator clubId clubIds listedOnly joinableOnly of
          (listed, joinable) \<Rightarrow>
            map (\<lambda>t. (t, length (filter (\<lambda>m. membership_clubTierId m = tier_id t)
                                    (clubMembership d))))
              (sort_key tier_unitAmount
                 (filter (tierWhere clubId clubIds listed joinable tierId) (clubTier d))))"

section \<open>deleteClub\<close>

datatype BuzzAccountType = UserAccount | ClubAccount

text \<open>The service issues transactions of type \<open>Tip\<close> only.\<close>

datatype TransactionType = Tip | OtherTransactionType

record BuzzTransaction =
  toAccountId :: int
  fromAccountId :: int
  fromAccountType :: BuzzAccountType
  transactionType :: TransactionType
  amount :: int

text \<open>What a call does to the outside, in the order it does it.\<close>

datatype effect = LedgerTransaction BuzzTransaction | ClubRowDeleted int

text \<open>
  \<^verbatim>\<open>getClub\<close> reads the club with \<^verbatim>\<open>findUniqueOrThrow\<close>. The ledger is a collaborator:
  \<open>createBuzzTransaction\<close> is a parameter that answers with the error it throws, if any,
  and \<open>getUserBuzzAccount\<close> reads the balance of the club's account.
\<close>

definition getClub :: "db \<Rightarrow> int \<Rightarrow> error + ClubRow" where
  "getClub d i = (case find (\<lambda>c. club_id c = i) (club d) of
                    None \<Rightarrow> Inl NotFoundError
                  | Some c \<Rightarrow> Inr c)"

definition getUserBuzzAccount :: "db \<Rightarrow> int \<Rightarrow> int option" where
  "getUserBuzzAccount d accountId = buzzBalance d accountId"

definition deleteClub ::
  "(BuzzTransaction \<Rightarrow> error option) \<Rightarrow> int \<Rightarrow> bool \<Rightarrow> int \<Rightarrow> db
     \<Rightarrow> error option \<times> effect list \<times> db" where
  "deleteClub createBuzzTransaction userId isModerator i d =
     (case getClub d i of
        Inl e \<Rightarrow> (Some e, [], d)
      | Inr c \<Rightarrow>
          if club_userId c \<noteq> userId \<and> \<not> isModerator then (Some BadRequestError, [], d)
          else
            let balance = (case getUserBuzzAccount d (club_id c) of None \<Rightarrow> 0 | Some b \<Rightarrow> b);
                tx = \<lparr>toAccountId = club_userId c, fromAccountId = club_id c,
                      fromAccountType = ClubAccount, transactionType = Tip,
                      amount = balance\<rparr>;
                deleted = d\<lparr>club := filter (\<lambda>r. club_id r \<noteq> i) (club d)\<rparr>
            in if balance > 0 then
                 (case createBuzzTransaction tx of
                    Some e \<Rightarrow> (Some e, [LedgerTransaction tx], d)
                  | None \<Rightarrow> (None, [LedgerTransaction tx, ClubRowDeleted i], deleted))
               else (None, [ClubRowDeleted i], deleted))"

section \<open>The invariant of the availability flag\<close>

text \<open>
  Section 3 of the specification: a resource is \<open>Public\<close> exactly when no grant of any
  accessor type exists for it.
\<close>

definition availabilityInvariant :: "db \<Rightarrow> SupportedClubEntities \<times> int \<Rightarrow> bool" where
  "availabilityInvariant d e =
     ((availability d e = Public) = (accessOf d (fst e) (snd e) = []))"

section \<open>A store to run the functions on\<close>

text \<open>
  Club 1 belongs to user 1 and has the tiers 11 and 12; user 4 is one of its admins, with
  \<open>ManageTiers\<close>. Club 2 belongs to user 2 and has the tier 21. User 3 has no role and is a
  member of tier 12. The model version 100, owned by user 1, is gated by tier 11 of club
  1 and by club 2; the article 200, also owned by user 1, is public and has no grant.
  The account of club 1 holds 500, the one of club 2 nothing.
\<close>

definition exampleDb :: db where
  "exampleDb =
     \<lparr>club = [\<lparr>club_id = 1, club_userId = 1\<rparr>, \<lparr>club_id = 2, club_userId = 2\<rparr>],
      clubAdmin = [\<lparr>admin_userId = 4, admin_clubId = 1, admin_permissions = [ManageTiers]\<rparr>],
      clubTier =
        [\<lparr>tier_id = 11, tier_clubId = 1, tier_name = ''Bronze'', tier_unitAmount = 10,
          tier_unlisted = False, tier_joinable = True\<rparr>,
         \<lparr>tier_id = 12, tier_clubId = 1, tier_name = ''Silver'', tier_unitAmount = 20,
          tier_unlisted = True, tier_joinable = True\<rparr>,
         \<lparr>tier_id = 21, tier_clubId = 2, tier_name = ''Gold'', tier_unitAmount = 30,
          tier_unlisted = False, tier_joinable = True\<rparr>],
      clubMembership = [\<lparr>membership_userId = 3, membership_clubTierId = 12\<rparr>],
      entityAccess =
        [\<lparr>accessToId = 100, accessToType = ModelVersion, accessorId = 11,
          accessorType = ClubTier, addedById = 1\<rparr>,
         \<lparr>accessToId = 100, accessToType = ModelVersion, accessorId = 2,
          accessorType = Club, addedById = 2\<rparr>],
      availability = (\<lambda>e. if e = (ModelVersion, 100) then Private else Public),
      entityOwner = (\<lambda>e. if e = (ModelVersion, 100) \<or> e = (Article, 200) then Some 1 else None),
      buzzBalance = (\<lambda>i. if i = 1 then Some 500 else if i = 2 then Some 0 else None),
      clubTierSeq = 21\<rparr>"

text \<open>The ledger that accepts every transaction.\<close>

definition acceptingLedger :: "BuzzTransaction \<Rightarrow> error option" where
  "acceptingLedger tx = None"

section \<open>Facts about the store operations\<close>

lemma first_Some_mem: "first xs = Some x \<Longrightarrow> x \<in> set xs"
  by (cases xs) (simp_all add: first_def)

lemma entityAccess_writes [simp]:
  "entityAccess (deleteManyAccess wh d) = filter (\<lambda>r. \<not> wh r) (entityAccess d)"
  "entityAccess (createManyAccess rows d) = entityAccess d @ rows"
  "entityAccess (entityAvailabilityUpdate et ids a d) = entityAccess d"
  by (simp_all add: deleteManyAccess_def createManyAccess_def entityAvailabilityUpdate_def)

lemma availability_writes [simp]:
  "availability (deleteManyAccess wh d) = availability d"
  "availability (createManyAccess rows d) = availability d"
  "availability (entityAvailabilityUpdate et ids a d) =
     (\<lambda>e. if fst e = et \<and> snd e \<in> set ids then a else availability d e)"
  by (simp_all add: deleteManyAccess_def createManyAccess_def entityAvailabilityUpdate_def)

lemma clubTier_writes [simp]:
  "clubTier (deleteManyAccess wh d) = clubTier d"
  "clubTier (createManyAccess rows d) = clubTier d"
  "clubTier (entityAvailabilityUpdate et ids a d) = clubTier d"
  by (simp_all add: deleteManyAccess_def createManyAccess_def entityAvailabilityUpdate_def)

lemma accessWhere_iff:
  "accessWhere entityType entityId cIds tIds r \<longleftrightarrow>
     accessToId r = entityId \<and> accessToType r = entityType \<and>
     (accessorType r = Club \<and> accessorId r \<in> set cIds \<or>
      accessorType r = ClubTier \<and> accessorId r \<in> set tIds)"
  by (auto simp: accessWhere_def)

lemma accessWhere_accessRow_Club [simp]:
  "accessWhere entityType entityId cIds tIds (accessRow entityType entityId Club userId i)
     \<longleftrightarrow> i \<in> set cIds"
  by (simp add: accessWhere_def accessRow_def)

lemma accessWhere_accessRow_ClubTier [simp]:
  "accessWhere entityType entityId cIds tIds (accessRow entityType entityId ClubTier userId i)
     \<longleftrightarrow> i \<in> set tIds"
  by (simp add: accessWhere_def accessRow_def)

lemma set_tierIdsOfClubs:
  "set (tierIdsOfClubs d cIds) = tier_id ` {t \<in> set (clubTier d). tier_clubId t \<in> set cIds}"
  by (auto simp: tierIdsOfClubs_def)

subsection \<open>Who contributes to a club\<close>

lemma userContributingClubs_mem:
  assumes "cc \<in> set (userContributingClubs d userId (Some [clubId]))"
  shows "\<exists>c\<in>set (club d). club_id c = clubId \<and> cc_userId cc = club_userId c"
    and "cc_admin cc = first (adminsOf d userId clubId)"
  using assms by (auto simp: userContributingClubs_def first_def)

lemma userContributingClubs_stranger:
  assumes "\<forall>c\<in>set (club d). club_id c = clubId \<longrightarrow> club_userId c \<noteq> userId"
    and "\<forall>a\<in>set (clubAdmin d). admin_clubId a = clubId \<longrightarrow> admin_userId a \<noteq> userId"
  shows "userContributingClubs d userId (Some [clubId]) = []"
proof -
  have "adminsOf d userId clubId = []"
    using assms(2) by (auto simp: adminsOf_def filter_empty_conv)
  then show ?thesis
    using assms(1) by (auto simp: userContributingClubs_def filter_empty_conv)
qed

lemma canEditTiers_denied:
  assumes "\<not> isModerator"
    and "\<forall>c\<in>set (club d). club_id c = clubId \<longrightarrow> club_userId c \<noteq> userId"
    and "\<forall>a\<in>set (clubAdmin d). admin_clubId a = clubId \<and> admin_userId a = userId
           \<longrightarrow> ManageTiers \<notin> set (admin_permissions a)"
  shows "\<not> canEditTiers userId isModerator
             (first (userContributingClubs d userId (Some [clubId])))"
proof (cases "first (userContributingClubs d userId (Some [clubId]))")
  case None
  then show ?thesis using assms(1) by (simp add: canEditTiers_def)
next
  case (Some cc)
  then have mem: "cc \<in> set (userContributingClubs d userId (Some [clubId]))"
    by (rule first_Some_mem)
  have owner: "cc_userId cc \<noteq> userId"
    using userContributingClubs_mem(1) [OF mem] assms(2) by auto
  have admin: "cc_admin cc = first (adminsOf d userId clubId)"
    by (rule userContributingClubs_mem(2) [OF mem])
  have perm: "ManageTiers \<notin> set (admin_permissions a)" if "cc_admin cc = Some a" for a
  proof -
    have "a \<in> set (adminsOf d userId clubId)"
      using that admin first_Some_mem by metis
    then show ?thesis
      using assms(3) by (auto simp: adminsOf_def)
  qed
  show ?thesis
    using Some assms(1) owner perm
    by (auto simp: canEditTiers_def split: option.splits)
qed

subsection \<open>The grant replacement of upsertClubResource\<close>


lemma tierAccessIds_general: "list_all isGeneralAccess clubs \<Longrightarrow> tierAccessIds clubs = []"
  by (induction clubs) (simp_all add: tierAccessIds_def List.map_filter_simps)

lemma upsertClubResource_nonempty:
  assumes "clubs \<noteq> []"
    and "upsertClubResource userId isModerator entityType entityId clubs d = (None, d')"
  shows "d' = entityAvailabilityUpdate entityType [entityId] Private
           (createManyAccess
              (map (accessRow entityType entityId ClubTier userId) (tierAccessIds clubs))
              (createManyAccess
                 (map (accessRow entityType entityId Club userId) (clubAccessIds clubs))
                 (deleteManyAccess
                    (accessWhere entityType entityId (map in_clubId clubs)
                       (tierIdsOfClubs d (map in_clubId clubs))) d)))"
  using assms
  by (auto simp: upsertClubResource_def upsertClubResource_commits_def Let_def
      split: if_splits)

lemma upsertClubResource_nonempty_access:
  assumes "clubs \<noteq> []"
    and "upsertClubResource userId isModerator entityType entityId clubs d = (None, d')"
  shows "entityAccess d' =
           filter (\<lambda>r. \<not> accessWhere entityType entityId (map in_clubId clubs)
                           (tierIdsOfClubs d (map in_clubId clubs)) r) (entityAccess d)
             @ map (accessRow entityType entityId Club userId) (clubAccessIds clubs)
             @ map (accessRow entityType entityId ClubTier userId) (tierAccessIds clubs)"
  by (simp add: upsertClubResource_nonempty [OF assms])

subsection \<open>What the resource lookup reports\<close>

lemma first_lookup:
  "first (getClubDetailsForResource d [e]) =
     Some \<lparr>details_entityType = fst e, details_entityId = snd e,
           details_clubs =
             map (\<lambda>c. \<lparr>req_clubId = c,
                        req_clubTierIds = (if gatingTierIds d e c = [] then None
                                           else Some (gatingTierIds d e c))\<rparr>)
               (gatingClubIds d e)\<rparr>"
  by (simp add: getClubDetailsForResource_def entityRequiresClub_def first_def)

lemma map_filter_gating:
  "set (concat (List.map_filter req_clubTierIds
          (map (\<lambda>c. \<lparr>req_clubId = c,
                     req_clubTierIds = (if f c = [] then None else Some (f c))\<rparr>) cs)))
     = (\<Union>c\<in>set cs. set (f c))"
  by (induction cs) (auto simp: List.map_filter_simps)

lemma lookup_Club:
  assumes "r \<in> set (entityAccess d)" "accessToId r = entityId" "accessToType r = entityType"
    and "accessorType r = Club"
  shows "accessorId r \<in> set (gatingClubIds d (entityType, entityId))"
  using assms by (auto simp: gatingClubIds_def clubGrantIds_def accessOf_def)

lemma lookup_ClubTier:
  assumes "r \<in> set (entityAccess d)" "accessToId r = entityId" "accessToType r = entityType"
    and "accessorType r = ClubTier"
  shows "accessorId r \<in> (\<Union>c\<in>set (gatingClubIds d (entityType, entityId)).
                           set (gatingTierIds d (entityType, entityId) c))
           \<longleftrightarrow> accessorId r \<in> tier_id ` set (clubTier d)"
proof
  assume "accessorId r \<in> (\<Union>c\<in>set (gatingClubIds d (entityType, entityId)).
                           set (gatingTierIds d (entityType, entityId) c))"
  then obtain t where "t \<in> set (clubTier d)" "tier_id t = accessorId r"
    by (auto simp: gatingTierIds_def list_ex_iff)
  then show "accessorId r \<in> tier_id ` set (clubTier d)"
    by (metis imageI)
next
  assume "accessorId r \<in> tier_id ` set (clubTier d)"
  then obtain t where t: "t \<in> set (clubTier d)" "tier_id t = accessorId r" by auto
  have r: "accessorId r \<in> set (tierGrantIds d (entityType, entityId))"
    using assms by (auto simp: tierGrantIds_def accessOf_def)
  then have "accessorId r \<in> set (gatingTierIds d (entityType, entityId) (tier_clubId t))"
    using t by (auto simp: gatingTierIds_def list_ex_iff)
  moreover have "tier_clubId t \<in> set (gatingClubIds d (entityType, entityId))"
    using t r by (auto simp: gatingClubIds_def)
  ultimately show "accessorId r \<in> (\<Union>c\<in>set (gatingClubIds d (entityType, entityId)).
                           set (gatingTierIds d (entityType, entityId) c))"
    by blast
qed

lemma empty_list_delete:
  "filter (\<lambda>r. \<not> accessWhere entityType entityId
             (map req_clubId
                (map (\<lambda>c. \<lparr>req_clubId = c,
                           req_clubTierIds =
                             (if gatingTierIds d (entityType, entityId) c = [] then None
                              else Some (gatingTierIds d (entityType, entityId) c))\<rparr>)
                   (gatingClubIds d (entityType, entityId))))
             (concat (List.map_filter req_clubTierIds
                (map (\<lambda>c. \<lparr>req_clubId = c,
                           req_clubTierIds =
                             (if gatingTierIds d (entityType, entityId) c = [] then None
                              else Some (gatingTierIds d (entityType, entityId) c))\<rparr>)
                   (gatingClubIds d (entityType, entityId))))) r) (entityAccess d)
   = filter (\<lambda>r. \<not> (accessToId r = entityId \<and> accessToType r = entityType \<and>
                    (accessorType r = Club \<or>
                     accessorType r = ClubTier \<and> accessorId r \<in> tier_id ` set (clubTier d))))
       (entityAccess d)"
proof (rule filter_cong [OF refl])
  fix r assume r: "r \<in> set (entityAccess d)"
  show "(\<not> accessWhere entityType entityId
             (map req_clubId
                (map (\<lambda>c. \<lparr>req_clubId = c,
                           req_clubTierIds =
                             (if gatingTierIds d (entityType, entityId) c = [] then None
                              else Some (gatingTierIds d (entityType, entityId) c))\<rparr>)
                   (gatingClubIds d (entityType, entityId))))
             (concat (List.map_filter req_clubTierIds
                (map (\<lambda>c. \<lparr>req_clubId = c,
                           req_clubTierIds =
                             (if gatingTierIds d (entityType, entityId) c = [] then None
                              else Some (gatingTierIds d (entityType, entityId) c))\<rparr>)
                   (gatingClubIds d (entityType, entityId))))) r)
      = (\<not> (accessToId r = entityId \<and> accessToType r = entityType \<and>
                    (accessorType r = Club \<or>
                     accessorType r = ClubTier \<and> accessorId r \<in> tier_id ` set (clubTier d))))"
    unfolding accessWhere_def map_filter_gating
    using lookup_Club [OF r, of entityId entityType] lookup_ClubTier [OF r, of entityId entityType]
    by (auto simp: comp_def)
qed

subsection \<open>Reading a club\<close>

lemma getClub_Inr: "getClub d i = Inr c \<Longrightarrow> club_id c = i \<and> c \<in> set (club d)"
  by (auto simp: getClub_def find_Some_iff split: option.splits)

subsection \<open>The writers that keep the availability invariant\<close>

lemma accessOf_deleteManyAccess_other:
  assumes "e \<noteq> (entityType, entityId)"
  shows "accessOf (deleteManyAccess (accessWhere entityType entityId cIds tIds) d) (fst e) (snd e)
           = accessOf d (fst e) (snd e)"
proof -
  have "filter (\<lambda>r. accessToId r = snd e \<and> accessToType r = fst e)
          (filter (\<lambda>r. \<not> accessWhere entityType entityId cIds tIds r) (entityAccess d))
        = filter (\<lambda>r. accessToId r = snd e \<and> accessToType r = fst e) (entityAccess d)"
    unfolding filter_filter
    using assms by (intro filter_cong refl) (auto simp: accessWhere_def)
  then show ?thesis
    by (simp add: accessOf_def)
qed

lemma accessOf_createManyAccess_other:
  assumes "e \<noteq> (entityType, entityId)"
  shows "accessOf (createManyAccess (map (accessRow entityType entityId ty userId) ids) d)
           (fst e) (snd e) = accessOf d (fst e) (snd e)"
proof -
  have "filter (\<lambda>r. accessToId r = snd e \<and> accessToType r = fst e)
          (map (accessRow entityType entityId ty userId) ids) = []"
    using assms by (auto simp: filter_empty_conv accessRow_def)
  then show ?thesis
    by (simp add: accessOf_def)
qed

lemma accessOf_createManyAccess_same:
  "accessOf (createManyAccess (map (accessRow entityType entityId ty userId) ids) d)
     entityType entityId
   = accessOf d entityType entityId @ map (accessRow entityType entityId ty userId) ids"
proof -
  have "filter (\<lambda>r. accessToId r = entityId \<and> accessToType r = entityType)
          (map (accessRow entityType entityId ty userId) ids)
        = map (accessRow entityType entityId ty userId) ids"
    by (simp add: filter_id_conv accessRow_def)
  then show ?thesis
    by (simp add: accessOf_def)
qed

lemma accessOf_entityAvailabilityUpdate [simp]:
  "accessOf (entityAvailabilityUpdate et ids a d) = accessOf d"
  by (rule ext, rule ext) (simp add: accessOf_def)

lemma accessOf_deleteManyAccess_empty:
  "accessOf d entityType entityId = []
     \<Longrightarrow> accessOf (deleteManyAccess wh d) entityType entityId = []"
  by (auto simp: accessOf_def filter_empty_conv)

lemma inserted_nonempty:
  "clubs \<noteq> [] \<Longrightarrow> clubAccessIds clubs \<noteq> [] \<or> tierAccessIds clubs \<noteq> []"
proof (cases clubs)
  case Nil
  assume "clubs \<noteq> []"
  with Nil show ?thesis by simp
next
  case (Cons c cs)
  show ?thesis
  proof (cases "isGeneralAccess c")
    case True
    then show ?thesis using Cons by (simp add: clubAccessIds_def)
  next
    case False
    then obtain ts where "in_clubTierIds c = Some ts" "ts \<noteq> []"
      by (auto simp: isGeneralAccess_def split: option.splits)
    then show ?thesis
      using Cons False by (simp add: tierAccessIds_def List.map_filter_simps)
  qed
qed

lemma invariant_after_delete_and_check:
  assumes inv: "availabilityInvariant d e"
  shows "availabilityInvariant
           (let d1 = deleteManyAccess (accessWhere entityType entityId cIds tIds) d
            in if accessOf d1 entityType entityId \<noteq> [] then d1
               else entityAvailabilityUpdate entityType [entityId] Public d1) e"
proof (cases "e = (entityType, entityId)")
  case True
  let ?d1 = "deleteManyAccess (accessWhere entityType entityId cIds tIds) d"
  show ?thesis
  proof (cases "accessOf ?d1 entityType entityId = []")
    case empty: True
    then show ?thesis
      using True by (simp add: availabilityInvariant_def Let_def)
  next
    case False
    then have "accessOf d entityType entityId \<noteq> []"
      using accessOf_deleteManyAccess_empty by blast
    then have "availability d e \<noteq> Public"
      using inv True by (simp add: availabilityInvariant_def)
    then show ?thesis
      using True False by (simp add: availabilityInvariant_def Let_def)
  qed
next
  case False
  have "fst e = entityType \<longrightarrow> snd e \<noteq> entityId"
    using False by (cases e) auto
  then show ?thesis
    using inv accessOf_deleteManyAccess_other [OF False, of cIds tIds d]
    by (auto simp: availabilityInvariant_def Let_def)
qed

lemma removeClubResource_preserves_invariant:
  assumes "availabilityInvariant d e"
  shows "availabilityInvariant
           (snd (removeClubResource userId isModerator entityType entityId clubId d)) e"
proof -
  note step = invariant_after_delete_and_check
                [OF assms, of entityType entityId "[clubId]" "tierIdsOfClubs d [clubId]"]
  show ?thesis
    using assms step
    by (auto simp: removeClubResource_def Let_def split: sum.splits bool.splits if_splits)
qed

lemma upsertClubResource_preserves_invariant:
  assumes "availabilityInvariant d e"
  shows "availabilityInvariant
           (snd (upsertClubResource userId isModerator entityType entityId clubs d)) e"
proof (cases "fst (upsertClubResource userId isModerator entityType entityId clubs d)")
  case (Some err)
  then have "snd (upsertClubResource userId isModerator entityType entityId clubs d) = d"
    by (auto simp: upsertClubResource_def upsertClubResource_commits_def Let_def first_lookup
          split: if_splits)
  then show ?thesis
    using assms by simp
next
  case None
  then have run: "upsertClubResource userId isModerator entityType entityId clubs d
                    = (None, snd (upsertClubResource userId isModerator entityType entityId clubs d))"
    by (metis prod.collapse)
  let ?d' = "snd (upsertClubResource userId isModerator entityType entityId clubs d)"
  show ?thesis
  proof (cases "clubs = []")
    case True
    let ?details = "the (first (getClubDetailsForResource d [(entityType, entityId)]))"
    note step = invariant_after_delete_and_check
                  [OF assms, of entityType entityId "map req_clubId (details_clubs ?details)"
                     "concat (List.map_filter req_clubTierIds (details_clubs ?details))"]
    show ?thesis
      using None True step
      by (auto simp: upsertClubResource_def upsertClubResource_commits_def Let_def first_lookup
            split: if_splits simp del: map_map)
  next
    case False
    note d' = upsertClubResource_nonempty [OF False run]
    show ?thesis
    proof (cases "e = (entityType, entityId)")
      case True
      have "accessOf ?d' entityType entityId \<noteq> []"
        using inserted_nonempty [OF False]
        by (subst d') (auto simp: accessOf_createManyAccess_same)
      moreover have "availability ?d' (entityType, entityId) = Private"
        by (subst d') simp
      ultimately show ?thesis
        using True by (simp add: availabilityInvariant_def)
    next
      case other: False
      have "accessOf ?d' (fst e) (snd e) = accessOf d (fst e) (snd e)"
        by (subst d')
           (simp add: accessOf_createManyAccess_other [OF other]
              accessOf_deleteManyAccess_other [OF other])
      moreover have "availability ?d' e = availability d e"
        using other by (subst d') (cases e, auto)
      ultimately show ?thesis
        using assms by (simp add: availabilityInvariant_def)
    qed
  qed
qed

subsection \<open>The filter forced on outsiders, and the commits of a replacement\<close>

lemma getClubTiers_outsider_restricted:
  assumes "\<not> isModerator"
    and "list_ex (\<lambda>c. c \<notin> set (userClubIdsOf d userId)) (queriedClubIds clubId clubIds)"
  shows "appliedFilter d userId isModerator clubId clubIds listedOnly joinableOnly
           = (Some True, Some True)"
  using assms
  by (auto simp: appliedFilter_def canViewAllTiers_def queriedClubIds_def truthy_def list_ex_iff
        split: option.splits if_splits)

lemma upsertClubResource_nonempty_commits:
  "clubs \<noteq> [] \<Longrightarrow>
     list_all (\<lambda>s. availability s (entityType, entityId) = Private)
       (snd (upsertClubResource_commits userId isModerator entityType entityId clubs d))"
  by (simp add: upsertClubResource_commits_def Let_def)

section \<open>Claims about the entitlement engine\<close>

subsection \<open>The availability invariant\<close>

text \<open>
  C1. The claim: after every completed call of \<open>upsertClubResource\<close>,
  \<open>updateClubResource\<close> and \<open>removeClubResource\<close>, a resource is \<open>Public\<close> exactly when it
  has no grant. \<open>updateClubResource\<close> inserts its grants and never writes the flag, where
  \<open>upsertClubResource\<close> sets it to \<open>Private\<close> after the same inserts. On the example
  store the article 200 is public and has no grant; the owner of the article and of
  club 1 scopes it to club 1. The call succeeds, the article then has one club-level
  grant and is still \<open>Public\<close>: the invariant held before the call and is broken after it.
\<close>

theorem updateClubResource_breaks_invariant:
  "availabilityInvariant exampleDb (Article, 200)
   \<and> fst (updateClubResource 1 False Article 200 1 None exampleDb) = None
   \<and> accessOf (snd (updateClubResource 1 False Article 200 1 None exampleDb)) Article 200
        = [accessRow Article 200 Club 1 1]
   \<and> availability (snd (updateClubResource 1 False Article 200 1 None exampleDb)) (Article, 200)
        = Public
   \<and> \<not> availabilityInvariant
         (snd (updateClubResource 1 False Article 200 1 None exampleDb)) (Article, 200)"
  by code_simp

subsection \<open>Granting with an empty club list\<close>

text \<open>
  C2, as stated, fails. The claim: with an empty club list, only the grants of clubs the
  principal administers are deleted, and grants of unrelated clubs stay. The lookup is
  given the resource and nothing about the principal. On the example store user 1
  contributes to club 1 only, the model version 100 holds a club-level grant of club 2,
  and the call of user 1 with no club deletes that grant.
\<close>

theorem upsertClubResource_empty_list_counterexample:
  "map cc_id (userContributingClubs exampleDb 1 None) = [1]
   \<and> accessRow ModelVersion 100 Club 2 2 \<in> set (entityAccess exampleDb)
   \<and> fst (upsertClubResource 1 False ModelVersion 100 [] exampleDb) = None
   \<and> accessRow ModelVersion 100 Club 2 2
        \<notin> set (entityAccess (snd (upsertClubResource 1 False ModelVersion 100 [] exampleDb)))"
  by code_simp

text \<open>
  C2, amended. For every call with an empty club list by the owner of the resource or a
  moderator, the call succeeds and deletes every club-level grant of the resource and
  every tier-level grant of the resource whose tier exists, whichever club they belong
  to: the principal does not occur in the rows that are kept. Grants of other accessor
  types and of other resources stay. Afterwards the resource is made \<open>Public\<close> if it has
  no grant left, and the flags are as before otherwise.
\<close>

theorem upsertClubResource_empty_list:
  assumes "isModerator \<or> entityOwnership d userId (entityType, entityId)"
  shows "\<exists>d'. upsertClubResource userId isModerator entityType entityId [] d = (None, d')
           \<and> entityAccess d' =
               filter (\<lambda>r. \<not> (accessToId r = entityId \<and> accessToType r = entityType \<and>
                              (accessorType r = Club \<or>
                               accessorType r = ClubTier \<and>
                                 accessorId r \<in> tier_id ` set (clubTier d))))
                 (entityAccess d)
           \<and> availability d' =
               (if accessOf d' entityType entityId = []
                then (availability d)((entityType, entityId) := Public)
                else availability d)"
  using assms
  by (auto simp: upsertClubResource_def upsertClubResource_commits_def first_lookup Let_def
        empty_list_delete accessOf_def fun_eq_iff
      simp del: map_map)

theorem upsertClubResource_empty_list_witness:
  "\<exists>d'. upsertClubResource 1 False ModelVersion 100 [] exampleDb = (None, d')
         \<and> entityAccess d' = []
         \<and> availability d' (ModelVersion, 100) = Public"
proof -
  have owner: "False \<or> entityOwnership exampleDb 1 (ModelVersion, 100)"
    by code_simp
  have rows: "filter (\<lambda>r. \<not> (accessToId r = 100 \<and> accessToType r = ModelVersion \<and>
                              (accessorType r = Club \<or>
                               accessorType r = ClubTier \<and>
                                 accessorId r \<in> tier_id ` set (clubTier exampleDb))))
                 (entityAccess exampleDb) = []"
    by (simp add: exampleDb_def)
  from upsertClubResource_empty_list [OF owner]
  obtain d' where d': "upsertClubResource 1 False ModelVersion 100 [] exampleDb = (None, d')"
    "entityAccess d' =
               filter (\<lambda>r. \<not> (accessToId r = 100 \<and> accessToType r = ModelVersion \<and>
                              (accessorType r = Club \<or>
                               accessorType r = ClubTier \<and>
                                 accessorId r \<in> tier_id ` set (clubTier exampleDb))))
                 (entityAccess exampleDb)"
    "availability d' =
               (if accessOf d' ModelVersion 100 = []
                then (availability exampleDb)((ModelVersion, 100) := Public)
                else availability exampleDb)"
    by blast
  have "entityAccess d' = []"
    using d'(2) rows by simp
  moreover from this have "availability d' (ModelVersion, 100) = Public"
    using d'(3) by (simp add: accessOf_def)
  ultimately show ?thesis
    using d'(1) by blast
qed

subsection \<open>Granting with a non-empty club list\<close>

text \<open>
  C3. For every successful call with a non-empty club list, the table of grants
  afterwards is the table before without the rows of the resource whose accessor is a
  requested club or a current tier of a requested club, followed by the inserted
  club-level and tier-level rows: the rows deleted are exactly those of that id space.
  In particular, when the request names one club and no tier, the rows of the resource
  in the id space of that club (the club and its current tiers) are afterwards the one
  club-level row just inserted: no tier-level row of the club is left.
\<close>

theorem upsertClubResource_full_replace:
  assumes "clubs \<noteq> []"
    and "upsertClubResource userId isModerator entityType entityId clubs d = (None, d')"
  shows "(let requestedClubIds = in_clubId ` set clubs;
              currentTierIds =
                tier_id ` {t \<in> set (clubTier d). tier_clubId t \<in> requestedClubIds};
              inIdSpace = (\<lambda>r. accessToId r = entityId \<and> accessToType r = entityType \<and>
                                (accessorType r = Club \<and> accessorId r \<in> requestedClubIds \<or>
                                 accessorType r = ClubTier \<and> accessorId r \<in> currentTierIds))
          in entityAccess d' =
               filter (\<lambda>r. \<not> inIdSpace r) (entityAccess d)
                 @ map (accessRow entityType entityId Club userId) (clubAccessIds clubs)
                 @ map (accessRow entityType entityId ClubTier userId) (tierAccessIds clubs))
         \<and> (\<forall>c. clubs = [c] \<and> isGeneralAccess c \<longrightarrow>
               filter (accessWhere entityType entityId [in_clubId c]
                         (tierIdsOfClubs d [in_clubId c]))
                 (entityAccess d') = [accessRow entityType entityId Club userId (in_clubId c)])"
proof -
  have w: "accessWhere entityType entityId (map in_clubId clubs)
             (tierIdsOfClubs d (map in_clubId clubs))
           = (\<lambda>r. accessToId r = entityId \<and> accessToType r = entityType \<and>
                  (accessorType r = Club \<and> accessorId r \<in> in_clubId ` set clubs \<or>
                   accessorType r = ClubTier \<and>
                     accessorId r \<in> tier_id ` {t \<in> set (clubTier d).
                                                 tier_clubId t \<in> in_clubId ` set clubs}))"
    by (rule ext) (simp add: accessWhere_iff set_tierIdsOfClubs)
  note one = upsertClubResource_nonempty_access [OF assms]
  have two: "filter (accessWhere entityType entityId [in_clubId c]
                       (tierIdsOfClubs d [in_clubId c]))
               (entityAccess d') = [accessRow entityType entityId Club userId (in_clubId c)]"
    if "clubs = [c]" "isGeneralAccess c" for c
  proof -
    have "tierAccessIds clubs = []"
      using that by (simp add: tierAccessIds_general)
    then show ?thesis
      using that by (simp add: one clubAccessIds_def)
  qed
  show ?thesis
    unfolding Let_def using one two by (simp add: w)
qed

theorem upsertClubResource_full_replace_witness:
  "accessRow ModelVersion 100 ClubTier 1 11 \<in> set (entityAccess exampleDb)
   \<and> tierIdsOfClubs exampleDb [1] = [11, 12]
   \<and> fst (upsertClubResource 1 False ModelVersion 100
             [\<lparr>in_clubId = 1, in_clubTierIds = None\<rparr>] exampleDb) = None
   \<and> filter (accessWhere ModelVersion 100 [1] (tierIdsOfClubs exampleDb [1]))
       (entityAccess (snd (upsertClubResource 1 False ModelVersion 100
                             [\<lparr>in_clubId = 1, in_clubTierIds = None\<rparr>] exampleDb)))
       = [accessRow ModelVersion 100 Club 1 1]"
proof -
  let ?c = "\<lparr>in_clubId = 1, in_clubTierIds = None\<rparr>"
  let ?r = "upsertClubResource 1 False ModelVersion 100 [?c] exampleDb"
  have before: "accessRow ModelVersion 100 ClubTier 1 11 \<in> set (entityAccess exampleDb)"
    "tierIdsOfClubs exampleDb [1] = [11, 12]"
    by code_simp+
  have ok: "fst ?r = None"
    by code_simp
  then have run: "?r = (None, snd ?r)"
    by (metis prod.collapse)
  have general: "isGeneralAccess ?c"
    by (simp add: isGeneralAccess_def)
  have ne: "[?c] \<noteq> []"
    by simp
  have "[?c] = [?c] \<and> isGeneralAccess ?c"
    using general by simp
  with upsertClubResource_full_replace [OF ne run, THEN conjunct2, rule_format, of ?c]
  have "filter (accessWhere ModelVersion 100 [in_clubId ?c]
                  (tierIdsOfClubs exampleDb [in_clubId ?c]))
          (entityAccess (snd ?r)) = [accessRow ModelVersion 100 Club 1 (in_clubId ?c)]"
    by blast
  then show ?thesis
    using before ok by simp
qed





subsection \<open>What upsertClubResource commits, and when\<close>

text \<open>
  C5. The claim: every multi-step mutation, the revert to public on an empty club list
  among them, runs in one transaction, so that no state is observable in which the
  deletes have applied and the availability update has not. With an empty club list
  the source issues \<^verbatim>\<open>dbWrite.entityAccess.deleteMany\<close> and the availability update as
  separate statements outside any transaction, where \<open>removeClubResource\<close> wraps the
  same sequence in \<^verbatim>\<open>$transaction\<close>. On the example store the call of user 1 on the model
  version 100 commits twice: the first committed state has no grant left on the
  resource and the flag still \<open>Private\<close>, the second has the flag \<open>Public\<close>.
\<close>

theorem upsertClubResource_empty_list_commits:
  "(case upsertClubResource_commits 1 False ModelVersion 100 [] exampleDb of
      (e, commits) \<Rightarrow>
        e = None \<and>
        map (\<lambda>s. (accessOf s ModelVersion 100, availability s (ModelVersion, 100))) commits
          = [([], Private), ([], Public)])"
  by code_simp

subsection \<open>Editing the tiers of a club\<close>

text \<open>
  C6. For every call of \<open>upsertClubTiers\<close> whose \<open>deleteTierIds\<close> name a tier that has a
  membership row, the call fails with \<open>BadRequestError\<close> and the store is the one before
  the call: no tier is deleted, named or not, with members or not, and no membership row
  changes.
\<close>

theorem upsertClubTiers_tier_with_members:
  assumes "deleteTierIds = Some ids"
    and "t \<in> set (clubTier d)"
    and "tier_id t \<in> set ids"
    and "\<exists>m\<in>set (clubMembership d). membership_clubTierId m = tier_id t"
  shows "upsertClubTiers userId isModerator clubId tiers deleteTierIds d
           = (Some BadRequestError, d)"
proof -
  have "hasMembers d t"
    using assms(4) by (auto simp: hasMembers_def list_ex_iff)
  then have "deletingTierWithMembers d ids \<noteq> None"
    using assms(2,3) by (auto simp: deletingTierWithMembers_def find_None_iff)
  moreover have "ids \<noteq> []"
    using assms(3) by auto
  ultimately show ?thesis
    using assms(1) by (simp add: upsertClubTiers_def Let_def)
qed

theorem upsertClubTiers_tier_with_members_witness:
  "upsertClubTiers 1 False 1 None (Some [11, 12]) exampleDb = (Some BadRequestError, exampleDb)"
proof -
  let ?t = "\<lparr>tier_id = 12, tier_clubId = 1, tier_name = ''Silver'', tier_unitAmount = 20,
             tier_unlisted = True, tier_joinable = True\<rparr>"
  have tier: "?t \<in> set (clubTier exampleDb)"
    by (simp add: exampleDb_def)
  have named: "tier_id ?t \<in> set [11, 12]"
    by simp
  have members: "\<exists>m\<in>set (clubMembership exampleDb). membership_clubTierId m = tier_id ?t"
    by (simp add: exampleDb_def)
  show ?thesis
    by (rule upsertClubTiers_tier_with_members [OF refl tier named members])
qed

text \<open>
  C7, as stated, fails in the kind of the error. The claim: a principal who is not the
  owner of the club, not a moderator and has no admin row with \<open>ManageTiers\<close> gets an
  \<open>AuthorizationError\<close>. The source throws with \<^verbatim>\<open>throwBadRequestError\<close>. On the example
  store user 3 has no role in club 1.
\<close>

theorem upsertClubTiers_unauthorized_counterexample:
  "userContributingClubs exampleDb 3 (Some [1]) = []
   \<and> fst (upsertClubTiers 3 False 1 None None exampleDb) = Some BadRequestError
   \<and> fst (upsertClubTiers 3 False 1 None None exampleDb) \<noteq> Some AuthorizationError"
  by code_simp

text \<open>
  C7, amended. For every call of \<open>upsertClubTiers\<close> by a principal who is not the owner of
  the club, not a moderator, and holds no admin row of the club with \<open>ManageTiers\<close>, the
  call fails with \<open>BadRequestError\<close> and the store is the one before the call.
\<close>

theorem upsertClubTiers_unauthorized:
  assumes "\<not> isModerator"
    and "\<forall>c\<in>set (club d). club_id c = clubId \<longrightarrow> club_userId c \<noteq> userId"
    and "\<forall>a\<in>set (clubAdmin d). admin_clubId a = clubId \<and> admin_userId a = userId
           \<longrightarrow> ManageTiers \<notin> set (admin_permissions a)"
  shows "upsertClubTiers userId isModerator clubId tiers deleteTierIds d
           = (Some BadRequestError, d)"
  using canEditTiers_denied [OF assms] by (simp add: upsertClubTiers_def)

theorem upsertClubTiers_unauthorized_witness:
  "upsertClubTiers 3 False 1 None (Some [11]) exampleDb = (Some BadRequestError, exampleDb)"
proof -
  have owner: "\<forall>c\<in>set (club exampleDb). club_id c = 1 \<longrightarrow> club_userId c \<noteq> 3"
    by (simp add: exampleDb_def)
  have admin: "\<forall>a\<in>set (clubAdmin exampleDb). admin_clubId a = 1 \<and> admin_userId a = 3
                 \<longrightarrow> ManageTiers \<notin> set (admin_permissions a)"
    by (simp add: exampleDb_def)
  show ?thesis
    by (rule upsertClubTiers_unauthorized [OF _ owner admin]) simp
qed

subsection \<open>Listing the tiers of clubs\<close>

text \<open>
  C8. The claim has two halves: a caller who is not a moderator and queries a club they
  do not contribute to is held to listed and joinable tiers, and a caller who
  contributes to every queried club keeps the filter they asked for. The source tests
  \<^verbatim>\<open>userClubIds.includes(clubId ?? -1)\<close> in conjunction with the test for \<open>clubIds\<close>, so a
  query by \<open>clubIds\<close> alone never passes it. On the example store user 1 owns club 1 and
  asks for its tiers by \<open>clubIds = [1]\<close> with no filter: the filter applied is listed and
  joinable only, and the unlisted tier 12 is left out, while the same caller asking by
  \<open>clubId = 1\<close> gets both tiers.
\<close>

theorem getClubTiers_owner_restricted:
  "1 \<in> set (userClubIdsOf exampleDb (Some 1))
   \<and> appliedFilter exampleDb (Some 1) False None (Some [1]) None None = (Some True, Some True)
   \<and> map (\<lambda>r. tier_id (fst r))
       (getClubTiers exampleDb (Some 1) False None (Some [1]) None None None) = [11]
   \<and> map (\<lambda>r. tier_id (fst r))
       (getClubTiers exampleDb (Some 1) False (Some 1) None None None None) = [11, 12]"
  by code_simp

subsection \<open>Deleting a club\<close>

text \<open>
  C9. For every call of \<open>deleteClub\<close> on an existing club by its owner or a moderator: if
  the balance of the club's account is positive, exactly one ledger transaction is
  issued, of the full balance, from the club's account to the owner of the club, and the
  club row is deleted after it (and only if the ledger accepted it); if the balance is
  zero or the account is absent, no ledger transaction is issued and the club row is
  deleted.
\<close>

theorem deleteClub_refunds_balance:
  assumes "getClub d i = Inr c"
    and "club_userId c = userId \<or> isModerator"
  shows "let balance = (case buzzBalance d i of None \<Rightarrow> 0 | Some b \<Rightarrow> b);
             tx = \<lparr>toAccountId = club_userId c, fromAccountId = i,
                   fromAccountType = ClubAccount, transactionType = Tip, amount = balance\<rparr>;
             effects = fst (snd (deleteClub createBuzzTransaction userId isModerator i d));
             rows = club (snd (snd (deleteClub createBuzzTransaction userId isModerator i d)))
         in (0 < balance \<longrightarrow>
               effects = (if createBuzzTransaction tx = None
                          then [LedgerTransaction tx, ClubRowDeleted i]
                          else [LedgerTransaction tx])) \<and>
            (balance \<le> 0 \<longrightarrow> effects = [ClubRowDeleted i]) \<and>
            rows = (if ClubRowDeleted i \<in> set effects
                    then filter (\<lambda>r. club_id r \<noteq> i) (club d) else club d)"
proof -
  have "club_id c = i"
    using getClub_Inr [OF assms(1)] by simp
  then show ?thesis
    using assms
    by (auto simp: deleteClub_def getUserBuzzAccount_def Let_def split: option.splits)
qed

theorem deleteClub_refunds_balance_witness:
  "fst (snd (deleteClub acceptingLedger 1 False 1 exampleDb))
     = [LedgerTransaction \<lparr>toAccountId = 1, fromAccountId = 1, fromAccountType = ClubAccount,
                           transactionType = Tip, amount = 500\<rparr>,
        ClubRowDeleted 1]
   \<and> fst (snd (deleteClub acceptingLedger 2 False 2 exampleDb)) = [ClubRowDeleted 2]"
proof -
  have c1: "getClub exampleDb 1 = Inr \<lparr>club_id = 1, club_userId = 1\<rparr>"
    and c2: "getClub exampleDb 2 = Inr \<lparr>club_id = 2, club_userId = 2\<rparr>"
    by (simp_all add: getClub_def exampleDb_def)
  have b1: "buzzBalance exampleDb 1 = Some 500" and b2: "buzzBalance exampleDb 2 = Some 0"
    by (simp_all add: exampleDb_def)
  have "fst (snd (deleteClub acceptingLedger 1 False 1 exampleDb))
     = [LedgerTransaction \<lparr>toAccountId = 1, fromAccountId = 1, fromAccountType = ClubAccount,
                           transactionType = Tip, amount = 500\<rparr>,
        ClubRowDeleted 1]"
    using deleteClub_refunds_balance [OF c1, of 1 False acceptingLedger]
    by (simp add: b1 Let_def acceptingLedger_def)
  moreover have "fst (snd (deleteClub acceptingLedger 2 False 2 exampleDb)) = [ClubRowDeleted 2]"
    using deleteClub_refunds_balance [OF c2, of 2 False acceptingLedger]
    by (simp add: b2 Let_def)
  ultimately show ?thesis
    by simp
qed

subsection \<open>Removing a resource from a club\<close>

text \<open>
  C10. For every call of \<open>removeClubResource\<close> by a principal who is not a moderator, does
  not own the resource, and neither owns the club nor has an admin row of it, the call
  fails with a \<open>TypeError\<close> (the read of \<^verbatim>\<open>userClub.admin\<close> on an undefined \<open>userClub\<close>),
  not with an \<open>AuthorizationError\<close>, and the store is the one before the call.
\<close>

theorem removeClubResource_stranger_TypeError:
  assumes "\<not> isModerator"
    and "\<not> entityOwnership d userId (entityType, entityId)"
    and "\<forall>c\<in>set (club d). club_id c = clubId \<longrightarrow> club_userId c \<noteq> userId"
    and "\<forall>a\<in>set (clubAdmin d). admin_clubId a = clubId \<longrightarrow> admin_userId a \<noteq> userId"
  shows "removeClubResource userId isModerator entityType entityId clubId d
           = (Some TypeError, d)"
proof -
  have "first (userContributingClubs d userId (Some [clubId])) = None"
    using userContributingClubs_stranger [OF assms(3,4)] by (simp add: first_def)
  then show ?thesis
    using assms(1,2) by (simp add: removeClubResource_def canRemoveResource_def)
qed

theorem removeClubResource_stranger_TypeError_witness:
  "\<not> entityOwnership exampleDb 3 (ModelVersion, 100)
   \<and> removeClubResource 3 False ModelVersion 100 1 exampleDb = (Some TypeError, exampleDb)"
proof -
  have stranger: "\<not> entityOwnership exampleDb 3 (ModelVersion, 100)"
    by (simp add: entityOwnership_def exampleDb_def)
  have owner: "\<forall>c\<in>set (club exampleDb). club_id c = 1 \<longrightarrow> club_userId c \<noteq> 3"
    by (simp add: exampleDb_def)
  have admin: "\<forall>a\<in>set (clubAdmin exampleDb). admin_clubId a = 1 \<longrightarrow> admin_userId a \<noteq> 3"
    by (simp add: exampleDb_def)
  show ?thesis
    using removeClubResource_stranger_TypeError [OF _ stranger owner admin, of False] stranger
    by simp
qed


end
